theory Spec2Isabelle
  imports Complex_Main
begin

section \<open>DiffBotSystemHardware: the hardware component of diffdrive\_mini\_ocebot\<close>

text \<open>
  A shallow embedding of \<^verbatim>\<open>src/hardware/diffbot_system.cpp\<close>. Every lifecycle
  callback of \<^verbatim>\<open>DiffBotSystemHardware\<close> becomes a function from the state before the
  call to the value returned and the state after it. The state is the component's own
  members together with the pigpio daemon it talks to. Log output (the
  \<^verbatim>\<open>RCLCPP_INFO\<close> and \<^verbatim>\<open>RCLCPP_FATAL\<close> lines) is not modelled: it changes neither the
  members nor the daemon.
\<close>

subsection \<open>Values returned and thrown\<close>

text \<open>\<^verbatim>\<open>hardware_interface::CallbackReturn\<close> and \<^verbatim>\<open>hardware_interface::return_type\<close>.\<close>

datatype CallbackReturn = SUCCESS | FAILURE | ERROR

datatype return_type = OK | RETURN_ERROR

text \<open>The exceptions of \<^verbatim>\<open>std::stoi\<close> and \<^verbatim>\<open>std::stoul\<close>.\<close>

datatype cpp_exception = invalid_argument | out_of_range

text \<open>
  A callback either returns a value to the lifecycle caller or leaves by an exception
  that nothing in the callback catches.
\<close>

datatype outcome = Returned CallbackReturn | Thrown cpp_exception

text \<open>The \<^verbatim>\<open>previous_state\<close> argument of the lifecycle callbacks.\<close>

datatype lifecycle_state = Unconfigured | Inactive | Active | Finalized

subsection \<open>Floating-point values\<close>

text \<open>
  A \<^verbatim>\<open>double\<close> is either a finite number or not (an infinity or a NaN). Finite
  arithmetic on doubles is idealised as exact arithmetic on reals: the rounding of each
  double operation is not modelled. What is modelled is where a result stops being
  finite (a division by zero) and the one place where the source narrows a double to a
  \<^verbatim>\<open>float\<close>.
\<close>

datatype double = Finite real | NonFinite

definition dsub :: "double \<Rightarrow> double \<Rightarrow> double" where
  "dsub a b = (case a of NonFinite \<Rightarrow> NonFinite
     | Finite x \<Rightarrow> (case b of NonFinite \<Rightarrow> NonFinite | Finite y \<Rightarrow> Finite (x - y)))"

text \<open>Division by a finite double: \<^verbatim>\<open>x / 0.0\<close> is an infinity or a NaN.\<close>

definition ddiv :: "double \<Rightarrow> real \<Rightarrow> double" where
  "ddiv a d = (case a of NonFinite \<Rightarrow> NonFinite
     | Finite x \<Rightarrow> if d = 0 then NonFinite else Finite (x / d))"

text \<open>
  Narrowing to IEEE binary32 (\<^verbatim>\<open>float x = aDouble;\<close>), round to nearest, ties to even:
  24 significant bits, exponents from \<open>-126\<close> (below it the spacing stays that of the
  subnormals) and overflow to infinity from \<open>2^128\<close>. The result is read back as a
  double, which holds every float exactly.
\<close>

fun bit_length :: "nat \<Rightarrow> nat" where
  "bit_length n = (if n = 0 then 0 else Suc (bit_length (n div 2)))"

declare bit_length.simps [simp del]

definition pow2 :: "int \<Rightarrow> real" where
  "pow2 e = (if 0 \<le> e then 2 ^ nat e else 1 / 2 ^ nat (- e))"

text \<open>The exponent \<open>e\<close> with \<open>2^e \<le> |x| < 2^(e+1)\<close>, for \<open>x\<close> other than 0.\<close>

definition binary_exponent :: "real \<Rightarrow> int" where
  "binary_exponent x =
     (if 1 \<le> \<bar>x\<bar> then int (bit_length (nat \<lfloor>\<bar>x\<bar>\<rfloor>)) - 1
      else - int (bit_length (nat (\<lceil>1 / \<bar>x\<bar>\<rceil> - 1))))"

definition round_half_even :: "real \<Rightarrow> int" where
  "round_half_even x =
     (let f = \<lfloor>x\<rfloor>; d = x - of_int f
      in if d < 1 / 2 then f else if 1 / 2 < d then f + 1 else if even f then f else f + 1)"

definition float_of_double :: "double \<Rightarrow> double" where
  "float_of_double a = (case a of NonFinite \<Rightarrow> NonFinite
     | Finite x \<Rightarrow>
         if x = 0 then Finite 0
         else let q = pow2 (max (binary_exponent x) (- 126) - 23);
                  r = of_int (round_half_even (x / q)) * q
              in if 2 ^ 128 \<le> \<bar>r\<bar> then NonFinite else Finite r)"

subsection \<open>Times\<close>

text \<open>
  \<^verbatim>\<open>rclcpp::Time\<close> and \<^verbatim>\<open>rclcpp::Duration\<close> hold a count of nanoseconds;
  \<^verbatim>\<open>Duration::seconds()\<close> is that count in seconds.
\<close>

type_synonym Time = int
type_synonym Duration = int

definition seconds :: "Duration \<Rightarrow> real" where
  "seconds d = of_int d / 1000000000"

subsection \<open>The hardware description\<close>

text \<open>
  \<^verbatim>\<open>hardware_interface::HardwareInfo\<close>, as far as the component reads it: the string-keyed
  parameters and the joints with their declared interfaces. The fields \<^verbatim>\<open>name\<close> of
  \<^verbatim>\<open>InterfaceInfo\<close> and \<^verbatim>\<open>ComponentInfo\<close> are \<open>if_name\<close> and \<open>joint_name\<close> here.
\<close>

record InterfaceInfo =
  if_name :: string

record ComponentInfo =
  joint_name :: string
  command_interfaces :: "InterfaceInfo list"
  state_interfaces :: "InterfaceInfo list"

record HardwareInfo =
  hardware_parameters :: "string \<rightharpoonup> string"
  joints :: "ComponentInfo list"

text \<open>The interface names of \<^verbatim>\<open>hardware_interface_type_values.hpp\<close>.\<close>

definition HW_IF_POSITION :: string where
  "HW_IF_POSITION = ''position''"

definition HW_IF_VELOCITY :: string where
  "HW_IF_VELOCITY = ''velocity''"

text \<open>
  \<^verbatim>\<open>std::unordered_map::operator[]\<close>: a key that is absent is inserted with the empty
  string, which is then the value read.
\<close>

definition subscript :: "(string \<rightharpoonup> string) \<Rightarrow> string \<Rightarrow> string \<times> (string \<rightharpoonup> string)" where
  "subscript m k = (case m k of Some v \<Rightarrow> (v, m) | None \<Rightarrow> ([], m(k \<mapsto> [])))"

subsection \<open>Parsing numbers: \<^verbatim>\<open>std::stoi\<close> and \<^verbatim>\<open>std::stoul\<close>\<close>

text \<open>
  Both go through \<^verbatim>\<open>strtol\<close> / \<^verbatim>\<open>strtoul\<close> in base 10: leading white space is
  skipped, one sign is accepted, then the longest run of decimal digits is read and
  whatever follows is ignored. No digit at all is \<^verbatim>\<open>std::invalid_argument\<close>; a value
  that does not fit is \<^verbatim>\<open>std::out_of_range\<close>. \<^verbatim>\<open>int\<close> has 32 bits and
  \<^verbatim>\<open>unsigned long\<close> 64 (LP64). \<^verbatim>\<open>strtoul\<close> negates a value with a minus sign
  modulo \<open>2^64\<close>.
\<close>

definition isspace :: "char \<Rightarrow> bool" where
  "isspace c = (c \<in> set [CHR '' '', CHR 0x09, CHR 0x0A, CHR 0x0B, CHR 0x0C, CHR 0x0D])"

definition isdigit :: "char \<Rightarrow> bool" where
  "isdigit c = (48 \<le> (of_char c :: nat) \<and> (of_char c :: nat) \<le> 57)"

definition digit_value :: "char \<Rightarrow> nat" where
  "digit_value c = of_char c - 48"

fun parse_sign :: "string \<Rightarrow> bool \<times> string" where
  "parse_sign [] = (False, [])"
| "parse_sign (c # cs) =
     (if c = CHR ''-'' then (True, cs)
      else if c = CHR ''+'' then (False, cs)
      else (False, c # cs))"

text \<open>The sign and the magnitude read, or \<open>None\<close> when no digit was found.\<close>

definition strto_magnitude :: "string \<Rightarrow> (bool \<times> nat) option" where
  "strto_magnitude s =
     (let (neg, r) = parse_sign (dropWhile isspace s);
          ds = takeWhile isdigit r
      in if ds = [] then None
         else Some (neg, foldl (\<lambda>acc c. 10 * acc + digit_value c) 0 ds))"

definition INT_MIN :: int where
  "INT_MIN = - 2147483648"

definition INT_MAX :: int where
  "INT_MAX = 2147483647"

definition ULONG_MAX :: nat where
  "ULONG_MAX = 18446744073709551615"

definition stoi :: "string \<Rightarrow> cpp_exception + int" where
  "stoi s = (case strto_magnitude s of
       None \<Rightarrow> Inl invalid_argument
     | Some (neg, m) \<Rightarrow>
         let v = (if neg then - int m else int m)
         in if v < INT_MIN \<or> INT_MAX < v then Inl out_of_range else Inr v)"

definition stoul :: "string \<Rightarrow> cpp_exception + nat" where
  "stoul s = (case strto_magnitude s of
       None \<Rightarrow> Inl invalid_argument
     | Some (neg, m) \<Rightarrow>
         if ULONG_MAX < m then Inl out_of_range
         else Inr (if neg then (2 ^ 64 - m) mod 2 ^ 64 else m))"

subsection \<open>The pigpio daemon\<close>

text \<open>
  The daemon is outside the repository. Its answers are inputs of the model:
  \<open>start_reply\<close> is what the next \<^verbatim>\<open>pigpio_start\<close> returns (a handle, or a negative
  error code when the daemon cannot be reached) and \<open>set_mode_reply h g\<close> is what
  \<^verbatim>\<open>set_mode(h, g, PI_OUTPUT)\<close> returns (0 for success). \<open>connections\<close> are the handles
  that are open.
\<close>

record pigpiod =
  start_reply :: int
  set_mode_reply :: "int \<Rightarrow> int \<Rightarrow> int"
  connections :: "int set"

definition pigpio_start :: "pigpiod \<Rightarrow> int \<times> pigpiod" where
  "pigpio_start d =
     (if start_reply d < 0 then (start_reply d, d)
      else (start_reply d, d\<lparr>connections := insert (start_reply d) (connections d)\<rparr>))"

text \<open>\<^verbatim>\<open>pigpio_stop\<close> returns nothing and ignores a handle that is not open.\<close>

definition pigpio_stop :: "int \<Rightarrow> pigpiod \<Rightarrow> pigpiod" where
  "pigpio_stop h d = d\<lparr>connections := connections d - {h}\<rparr>"

definition set_mode :: "int \<Rightarrow> int \<Rightarrow> pigpiod \<Rightarrow> int" where
  "set_mode h gpio d = set_mode_reply d h gpio"

subsection \<open>The members of the component\<close>

text \<open>
  \<^verbatim>\<open>Config\<close> and \<^verbatim>\<open>Wheel\<close> are declared in headers that are not among the sources; their
  fields are the ones the source file reads and writes, each of a type that holds what
  the source assigns to it (the \<^verbatim>\<open>int\<close> of \<^verbatim>\<open>std::stoi\<close>, the \<^verbatim>\<open>unsigned long\<close> of
  \<^verbatim>\<open>std::stoul\<close>, the \<^verbatim>\<open>double\<close> the state and command interfaces point to). The member \<^verbatim>\<open>pi\<close> of the
  configuration is \<open>pi_handle\<close> here (\<open>pi\<close> is the real number), the member
  \<^verbatim>\<open>name\<close> of a wheel is \<open>wheel_name\<close>, and the members \<^verbatim>\<open>info_\<close>, \<^verbatim>\<open>cfg_\<close>,
  \<^verbatim>\<open>wheel_left_\<close> and \<^verbatim>\<open>wheel_right_\<close> lose their trailing underscore.
\<close>

record Config =
  left_wheel_name :: string
  right_wheel_name :: string
  left_wheel_pin :: int
  right_wheel_pin :: int
  enc_counts_per_rev :: nat
  pi_handle :: int

record Wheel =
  wheel_name :: string
  enc :: int
  counts_per_rev :: nat
  pos :: double
  vel :: double
  cmd :: double

record DiffBotSystemHardware =
  info :: HardwareInfo
  cfg :: Config
  wheel_left :: Wheel
  wheel_right :: Wheel

record world =
  daemon :: pigpiod
  hw :: DiffBotSystemHardware

text \<open>
  Modelled from the spec: \<^verbatim>\<open>Wheel::setup\<close>, which is declared in the missing header
  \<^verbatim>\<open>wheel.hpp\<close>. The spec: ``one-time initialization; sets identity and resolution,
  zeroes position/velocity/command''. It is \<open>wheel_setup\<close> here.
\<close>

definition wheel_setup :: "string \<Rightarrow> nat \<Rightarrow> Wheel \<Rightarrow> Wheel" where
  "wheel_setup n counts w =
     w\<lparr>wheel_name := n, counts_per_rev := counts,
       pos := Finite 0, vel := Finite 0, cmd := Finite 0\<rparr>"

text \<open>
  Modelled from the spec: \<^verbatim>\<open>Wheel::calc_enc_angle\<close>, also of \<^verbatim>\<open>wheel.hpp\<close>. The spec:
  ``read the current raw encoder tick count, convert to angular position as
  position = ticks / counts\_per\_revolution * 2\<open>\<pi>\<close>''. With no counts per revolution
  the quotient is a division by zero.
\<close>

definition calc_enc_angle :: "Wheel \<Rightarrow> double" where
  "calc_enc_angle w =
     (if counts_per_rev w = 0 then NonFinite
      else Finite (of_int (enc w) / of_nat (counts_per_rev w) * 2 * pi))"

subsection \<open>\<^verbatim>\<open>on_init\<close>\<close>

text \<open>
  The loop over \<^verbatim>\<open>info_.joints\<close> (lines 61 to 108): the first joint that fails one of
  the five checks, taken in the source's order, ends the callback with \<^verbatim>\<open>ERROR\<close>.
\<close>

fun validate_joints :: "ComponentInfo list \<Rightarrow> CallbackReturn" where
  "validate_joints [] = SUCCESS"
| "validate_joints (joint # rest) =
     (if length (command_interfaces joint) \<noteq> 1 then ERROR
      else if if_name (command_interfaces joint ! 0) \<noteq> HW_IF_VELOCITY then ERROR
      else if length (state_interfaces joint) \<noteq> 2 then ERROR
      else if if_name (state_interfaces joint ! 0) \<noteq> HW_IF_POSITION then ERROR
      else if if_name (state_interfaces joint ! 1) \<noteq> HW_IF_VELOCITY then ERROR
      else validate_joints rest)"

text \<open>
  Lines 52 to 56: the five parameters are read in order, each with \<^verbatim>\<open>operator[]\<close>,
  and each is stored before the next is read, so an exception of \<^verbatim>\<open>std::stoi\<close> or
  \<^verbatim>\<open>std::stoul\<close> leaves the earlier ones stored. The result is the exception, or the
  component with the configuration filled in.
\<close>

definition read_parameters :: "DiffBotSystemHardware \<Rightarrow> cpp_exception option \<times> DiffBotSystemHardware" where
  "read_parameters h0 =
     (let (v1, m1) = subscript (hardware_parameters (info h0)) ''left_wheel_name'';
          h1 = h0\<lparr>info := (info h0)\<lparr>hardware_parameters := m1\<rparr>,
                  cfg := (cfg h0)\<lparr>left_wheel_name := v1\<rparr>\<rparr>;
          (v2, m2) = subscript m1 ''right_wheel_name'';
          h2 = h1\<lparr>info := (info h1)\<lparr>hardware_parameters := m2\<rparr>,
                  cfg := (cfg h1)\<lparr>right_wheel_name := v2\<rparr>\<rparr>;
          (v3, m3) = subscript m2 ''left_wheel_pin'';
          h3 = h2\<lparr>info := (info h2)\<lparr>hardware_parameters := m3\<rparr>\<rparr>
      in (case stoi v3 of
            Inl e \<Rightarrow> (Some e, h3)
          | Inr lp \<Rightarrow>
             (let h4 = h3\<lparr>cfg := (cfg h3)\<lparr>left_wheel_pin := lp\<rparr>\<rparr>;
                  (v5, m5) = subscript m3 ''right_wheel_pin'';
                  h5 = h4\<lparr>info := (info h4)\<lparr>hardware_parameters := m5\<rparr>\<rparr>
              in (case stoi v5 of
                    Inl e \<Rightarrow> (Some e, h5)
                  | Inr rp \<Rightarrow>
                     (let h6 = h5\<lparr>cfg := (cfg h5)\<lparr>right_wheel_pin := rp\<rparr>\<rparr>;
                          (v7, m7) = subscript m5 ''enc_counts_per_rev'';
                          h7 = h6\<lparr>info := (info h6)\<lparr>hardware_parameters := m7\<rparr>\<rparr>
                      in (case stoul v7 of
                            Inl e \<Rightarrow> (Some e, h7)
                          | Inr n \<Rightarrow>
                              (None, h7\<lparr>cfg := (cfg h7)\<lparr>enc_counts_per_rev := n\<rparr>\<rparr>)))))))"

text \<open>
  The base class's \<^verbatim>\<open>SystemInterface::on_init\<close> is outside the repository: it stores
  the description in \<^verbatim>\<open>info_\<close>, and its return value is the input \<open>base\<close>.
\<close>

definition on_init :: "CallbackReturn \<Rightarrow> HardwareInfo \<Rightarrow> world \<Rightarrow> outcome \<times> world" where
  "on_init base hardware_info w0 =
     (let h0 = (hw w0)\<lparr>info := hardware_info\<rparr>
      in if base \<noteq> SUCCESS then (Returned ERROR, w0\<lparr>hw := h0\<rparr>)
         else
           let (p, d1) = pigpio_start (daemon w0);
               h1 = h0\<lparr>cfg := (cfg h0)\<lparr>pi_handle := p\<rparr>\<rparr>
           in if p < 0 then (Returned ERROR, \<lparr>daemon = d1, hw = h1\<rparr>)
              else (case read_parameters h1 of
                  (Some e, h2) \<Rightarrow> (Thrown e, \<lparr>daemon = d1, hw = h2\<rparr>)
                | (None, h2) \<Rightarrow>
                    let h3 = h2\<lparr>wheel_left :=
                                 wheel_setup (left_wheel_name (cfg h2)) (enc_counts_per_rev (cfg h2))
                                   (wheel_left h2)\<rparr>;
                        h4 = h3\<lparr>wheel_right :=
                                 wheel_setup (right_wheel_name (cfg h3)) (enc_counts_per_rev (cfg h3))
                                   (wheel_right h3)\<rparr>
                    in (Returned (validate_joints (joints (info h4))), \<lparr>daemon = d1, hw = h4\<rparr>)))"

subsection \<open>\<^verbatim>\<open>on_configure\<close>, \<^verbatim>\<open>on_activate\<close>, \<^verbatim>\<open>on_deactivate\<close>, \<^verbatim>\<open>on_shutdown\<close>\<close>

definition on_configure :: "lifecycle_state \<Rightarrow> world \<Rightarrow> CallbackReturn \<times> world" where
  "on_configure previous_state w =
     (if set_mode (pi_handle (cfg (hw w))) (left_wheel_pin (cfg (hw w))) (daemon w) \<noteq> 0
      then (ERROR, w\<lparr>daemon := pigpio_stop (pi_handle (cfg (hw w))) (daemon w)\<rparr>)
      else if set_mode (pi_handle (cfg (hw w))) (right_wheel_pin (cfg (hw w))) (daemon w) \<noteq> 0
      then (ERROR, w\<lparr>daemon := pigpio_stop (pi_handle (cfg (hw w))) (daemon w)\<rparr>)
      else (SUCCESS, w))"

definition on_activate :: "lifecycle_state \<Rightarrow> world \<Rightarrow> CallbackReturn \<times> world" where
  "on_activate previous_state w = (SUCCESS, w)"

definition on_deactivate :: "lifecycle_state \<Rightarrow> world \<Rightarrow> CallbackReturn \<times> world" where
  "on_deactivate previous_state w = (SUCCESS, w)"

definition on_shutdown :: "lifecycle_state \<Rightarrow> world \<Rightarrow> CallbackReturn \<times> world" where
  "on_shutdown previous_state w =
     (SUCCESS, w\<lparr>daemon := pigpio_stop (pi_handle (cfg (hw w))) (daemon w)\<rparr>)"

subsection \<open>\<^verbatim>\<open>read\<close> and \<^verbatim>\<open>write\<close>\<close>

text \<open>\<^verbatim>\<open>write\<close> is \<open>hw_write\<close> here.\<close>

text \<open>
  One wheel's part of \<^verbatim>\<open>read\<close> (lines 212 to 214, and again 216 to 218): the previous
  position goes through the local \<^verbatim>\<open>float pos_prev\<close>, so it is narrowed to single
  precision before the difference is taken.
\<close>

definition read_wheel :: "real \<Rightarrow> Wheel \<Rightarrow> Wheel" where
  "read_wheel delta_seconds w =
     (let pos_prev = float_of_double (pos w);
          w1 = w\<lparr>pos := calc_enc_angle w\<rparr>
      in w1\<lparr>vel := ddiv (dsub (pos w1) pos_prev) delta_seconds\<rparr>)"

definition read :: "Time \<Rightarrow> Duration \<Rightarrow> world \<Rightarrow> return_type \<times> world" where
  "read time period w =
     (let delta_seconds = seconds period;
          h1 = (hw w)\<lparr>wheel_left := read_wheel delta_seconds (wheel_left (hw w))\<rparr>;
          h2 = h1\<lparr>wheel_right := read_wheel delta_seconds (wheel_right h1)\<rparr>
      in (OK, w\<lparr>hw := h2\<rparr>))"

definition hw_write :: "Time \<Rightarrow> Duration \<Rightarrow> world \<Rightarrow> return_type \<times> world" where
  "hw_write time period w = (OK, w)"

text \<open>
  The values the state interfaces export (\<^verbatim>\<open>export_state_interfaces\<close>): position and
  velocity of the left wheel, then of the right wheel.
\<close>

definition exported_state :: "world \<Rightarrow> double list" where
  "exported_state w =
     [pos (wheel_left (hw w)), vel (wheel_left (hw w)),
      pos (wheel_right (hw w)), vel (wheel_right (hw w))]"

definition exported_commands :: "world \<Rightarrow> double list" where
  "exported_commands w = [cmd (wheel_left (hw w)), cmd (wheel_right (hw w))]"

subsection \<open>What the specification asks of a configuration\<close>

text \<open>
  The shape the specification asks of a joint, in its words: exactly one command
  interface, named velocity, and exactly two state interfaces, position then velocity.
\<close>

definition joint_conforms :: "ComponentInfo \<Rightarrow> bool" where
  "joint_conforms j =
     (map if_name (command_interfaces j) = [''velocity''] \<and>
      map if_name (state_interfaces j) = [''position'', ''velocity''])"

text \<open>
  The value \<^verbatim>\<open>operator[]\<close> reads for a key, and the configurations whose two pin numbers
  and encoder resolution are accepted by \<^verbatim>\<open>std::stoi\<close> and \<^verbatim>\<open>std::stoul\<close>.
\<close>

definition parameter :: "HardwareInfo \<Rightarrow> string \<Rightarrow> string" where
  "parameter i k = (case hardware_parameters i k of Some v \<Rightarrow> v | None \<Rightarrow> [])"

definition params_parse :: "HardwareInfo \<Rightarrow> bool" where
  "params_parse i =
     (\<not> isl (stoi (parameter i ''left_wheel_pin'')) \<and>
      \<not> isl (stoi (parameter i ''right_wheel_pin'')) \<and>
      \<not> isl (stoul (parameter i ''enc_counts_per_rev'')))"

subsection \<open>Concrete configurations and states\<close>

text \<open>
  A joint of the expected shape, a joint that declares no command interface and a joint
  whose two state interfaces come in the wrong order.
\<close>

definition velocity_joint :: "string \<Rightarrow> ComponentInfo" where
  "velocity_joint n =
     \<lparr>joint_name = n,
      command_interfaces = [\<lparr>if_name = ''velocity''\<rparr>],
      state_interfaces = [\<lparr>if_name = ''position''\<rparr>, \<lparr>if_name = ''velocity''\<rparr>]\<rparr>"

definition no_command_joint :: "string \<Rightarrow> ComponentInfo" where
  "no_command_joint n =
     \<lparr>joint_name = n,
      command_interfaces = [],
      state_interfaces = [\<lparr>if_name = ''position''\<rparr>, \<lparr>if_name = ''velocity''\<rparr>]\<rparr>"

definition swapped_state_joint :: "string \<Rightarrow> ComponentInfo" where
  "swapped_state_joint n =
     \<lparr>joint_name = n,
      command_interfaces = [\<lparr>if_name = ''velocity''\<rparr>],
      state_interfaces = [\<lparr>if_name = ''velocity''\<rparr>, \<lparr>if_name = ''position''\<rparr>]\<rparr>"

text \<open>
  The parameters of a two-wheeled robot, with the encoder resolution left open, a daemon
  that accepts every call, and the component before \<^verbatim>\<open>on_init\<close> has run.
\<close>

definition wheel_parameters :: "string \<Rightarrow> (string \<rightharpoonup> string)" where
  "wheel_parameters counts =
     [''left_wheel_name'' \<mapsto> ''left_wheel_joint'',
      ''right_wheel_name'' \<mapsto> ''right_wheel_joint'',
      ''left_wheel_pin'' \<mapsto> ''17'',
      ''right_wheel_pin'' \<mapsto> ''18'',
      ''enc_counts_per_rev'' \<mapsto> counts]"

definition idle_daemon :: pigpiod where
  "idle_daemon = \<lparr>start_reply = 0, set_mode_reply = (\<lambda>h gpio. 0), connections = {}\<rparr>"

definition blank_wheel :: Wheel where
  "blank_wheel =
     \<lparr>wheel_name = [], enc = 0, counts_per_rev = 0,
      pos = Finite 0, vel = Finite 0, cmd = Finite 0\<rparr>"

definition blank_hardware :: DiffBotSystemHardware where
  "blank_hardware =
     \<lparr>info = \<lparr>hardware_parameters = Map.empty, joints = []\<rparr>,
      cfg = \<lparr>left_wheel_name = [], right_wheel_name = [], left_wheel_pin = 0,
             right_wheel_pin = 0, enc_counts_per_rev = 0, pi_handle = - 1\<rparr>,
      wheel_left = blank_wheel, wheel_right = blank_wheel\<rparr>"

definition fresh_world :: world where
  "fresh_world = \<lparr>daemon = idle_daemon, hw = blank_hardware\<rparr>"

text \<open>
  The usual description with its two joints, one whose \<^verbatim>\<open>left_wheel_pin\<close> is missing and
  one whose second joint has the wrong shape.
\<close>

definition two_wheel_info :: "string \<Rightarrow> HardwareInfo" where
  "two_wheel_info counts =
     \<lparr>hardware_parameters = wheel_parameters counts,
      joints = [velocity_joint ''left_wheel_joint'', velocity_joint ''right_wheel_joint'']\<rparr>"

definition missing_pin_info :: HardwareInfo where
  "missing_pin_info =
     \<lparr>hardware_parameters =
        [''left_wheel_name'' \<mapsto> ''left_wheel_joint'',
         ''right_wheel_name'' \<mapsto> ''right_wheel_joint'',
         ''right_wheel_pin'' \<mapsto> ''18'',
         ''enc_counts_per_rev'' \<mapsto> ''1920''],
      joints = [velocity_joint ''left_wheel_joint'', velocity_joint ''right_wheel_joint'']\<rparr>"

definition bad_joint_info :: HardwareInfo where
  "bad_joint_info =
     \<lparr>hardware_parameters = wheel_parameters ''1920'',
      joints = [velocity_joint ''left_wheel_joint'', no_command_joint ''right_wheel_joint'']\<rparr>"

text \<open>
  The same wrong second joint in a description whose encoder resolution is not a number.
\<close>

definition many_counts_bad_joint_info :: HardwareInfo where
  "many_counts_bad_joint_info =
     \<lparr>hardware_parameters = wheel_parameters ''many'',
      joints = [velocity_joint ''left_wheel_joint'', no_command_joint ''right_wheel_joint'']\<rparr>"

text \<open>
  A wheel with given ticks, resolution and position; a component that is connected
  (handle 0) with two such wheels; and a connected component whose daemon refuses to
  configure pin 18.
\<close>

definition wheel_at :: "int \<Rightarrow> nat \<Rightarrow> double \<Rightarrow> Wheel" where
  "wheel_at ticks counts p =
     \<lparr>wheel_name = [], enc = ticks, counts_per_rev = counts,
      pos = p, vel = Finite 0, cmd = Finite 0\<rparr>"

definition running_world :: "Wheel \<Rightarrow> Wheel \<Rightarrow> world" where
  "running_world l r =
     \<lparr>daemon = idle_daemon\<lparr>connections := {0}\<rparr>,
      hw = blank_hardware\<lparr>cfg := (cfg blank_hardware)\<lparr>pi_handle := 0\<rparr>,
             wheel_left := l, wheel_right := r\<rparr>\<rparr>"

definition refusing_world :: world where
  "refusing_world =
     \<lparr>daemon = \<lparr>start_reply = 0,
                 set_mode_reply = (\<lambda>h gpio. if gpio = 18 then - 3 else 0),
                 connections = {0}\<rparr>,
      hw = blank_hardware\<lparr>cfg := (cfg blank_hardware)
             \<lparr>left_wheel_pin := 17, right_wheel_pin := 18, pi_handle := 0\<rparr>\<rparr>\<rparr>"

text \<open>
  A left wheel that has made ten thousand revolutions (ten million ticks at a thousand
  per revolution) and stands still.
\<close>

definition standing_world :: world where
  "standing_world =
     running_world (wheel_at 10000000 1000 (Finite 0)) (wheel_at 0 1000 (Finite 0))"

section \<open>Properties\<close>

subsection \<open>Joint validation\<close>

lemma map_eq_singleton: "map f xs = [v] \<longleftrightarrow> length xs = 1 \<and> f (xs ! 0) = v"
  by (cases xs) auto

lemma map_eq_pair:
  "map f xs = [u, v] \<longleftrightarrow> length xs = 2 \<and> f (xs ! 0) = u \<and> f (xs ! 1) = v"
proof (cases xs)
  case Nil
  then show ?thesis by simp
next
  case (Cons a ys)
  then show ?thesis by (cases ys) auto
qed

lemma validate_joint_step:
  "validate_joints (j # js) = (if joint_conforms j then validate_joints js else ERROR)"
  by (simp add: joint_conforms_def HW_IF_POSITION_def HW_IF_VELOCITY_def map_eq_singleton
      map_eq_pair)

lemma validate_joints_SUCCESS_iff:
  "validate_joints js = SUCCESS \<longleftrightarrow> (\<forall>j\<in>set js. joint_conforms j)"
  by (induction js) (simp_all only: validate_joint_step validate_joints.simps, auto)

lemma validate_joints_cases: "validate_joints js = SUCCESS \<or> validate_joints js = ERROR"
  by (induction js) (simp_all only: validate_joint_step validate_joints.simps, auto)

subsection \<open>Reading the parameters\<close>

lemma fst_subscript: "fst (subscript m k) = (case m k of Some v \<Rightarrow> v | None \<Rightarrow> [])"
  by (simp add: subscript_def split: option.splits)

lemma snd_subscript_other: "k' \<noteq> k \<Longrightarrow> snd (subscript m k) k' = m k'"
  by (simp add: subscript_def split: option.splits)

lemma read_parameters_fst:
  "fst (read_parameters h) =
     (case stoi (parameter (info h) ''left_wheel_pin'') of
        Inl e \<Rightarrow> Some e
      | Inr lp \<Rightarrow> (case stoi (parameter (info h) ''right_wheel_pin'') of
          Inl e \<Rightarrow> Some e
        | Inr rp \<Rightarrow> (case stoul (parameter (info h) ''enc_counts_per_rev'') of
            Inl e \<Rightarrow> Some e
          | Inr n \<Rightarrow> None)))"
  by (simp add: read_parameters_def parameter_def case_prod_beta Let_def fst_subscript
      snd_subscript_other split: sum.splits)

lemma read_parameters_frame:
  "joints (info (snd (read_parameters h))) = joints (info h) \<and>
   pi_handle (cfg (snd (read_parameters h))) = pi_handle (cfg h) \<and>
   wheel_left (snd (read_parameters h)) = wheel_left h \<and>
   wheel_right (snd (read_parameters h)) = wheel_right h"
  by (simp add: read_parameters_def case_prod_beta Let_def split: sum.splits)

lemma read_parameters_counts:
  "fst (read_parameters h) = None \<Longrightarrow>
   stoul (parameter (info h) ''enc_counts_per_rev'') =
     Inr (enc_counts_per_rev (cfg (snd (read_parameters h))))"
  by (simp add: read_parameters_def parameter_def case_prod_beta Let_def fst_subscript
      snd_subscript_other split: sum.splits)

lemma read_parameters_None_iff:
  "fst (read_parameters h) = None \<longleftrightarrow> params_parse (info h)"
  by (simp add: read_parameters_fst params_parse_def split: sum.splits)

subsection \<open>The outcome and the effects of \<^verbatim>\<open>on_init\<close>\<close>

lemma on_init_outcome:
  "fst (on_init base i w) =
     (if base \<noteq> SUCCESS then Returned ERROR
      else if start_reply (daemon w) < 0 then Returned ERROR
      else (case fst (read_parameters
                   ((hw w)\<lparr>info := i, cfg := (cfg (hw w))\<lparr>pi_handle := start_reply (daemon w)\<rparr>\<rparr>)) of
              Some e \<Rightarrow> Thrown e
            | None \<Rightarrow> Returned (validate_joints (joints i))))"
  using read_parameters_frame
    [of "(hw w)\<lparr>info := i, cfg := (cfg (hw w))\<lparr>pi_handle := start_reply (daemon w)\<rparr>\<rparr>"]
  by (simp add: on_init_def pigpio_start_def Let_def case_prod_beta split: option.splits)

lemma on_init_refuses:
  "base \<noteq> SUCCESS \<or> start_reply (daemon w) < 0 \<Longrightarrow> fst (on_init base i w) = Returned ERROR"
  by (auto simp: on_init_outcome)

lemma on_init_returns:
  assumes "base = SUCCESS" "0 \<le> start_reply (daemon w)" "params_parse i"
  shows "fst (on_init base i w) = Returned (validate_joints (joints i))"
proof -
  have "fst (read_parameters
          ((hw w)\<lparr>info := i, cfg := (cfg (hw w))\<lparr>pi_handle := start_reply (daemon w)\<rparr>\<rparr>)) = None"
    using assms(3) by (simp add: read_parameters_None_iff)
  with assms(1,2) show ?thesis by (simp add: on_init_outcome)
qed

lemma on_init_throws:
  assumes "base = SUCCESS" "0 \<le> start_reply (daemon w)" "\<not> params_parse i"
  shows "fst (on_init base i w) = Thrown invalid_argument \<or>
         fst (on_init base i w) = Thrown out_of_range"
proof -
  let ?h = "(hw w)\<lparr>info := i, cfg := (cfg (hw w))\<lparr>pi_handle := start_reply (daemon w)\<rparr>\<rparr>"
  have "fst (read_parameters ?h) \<noteq> None"
    using assms(3) read_parameters_None_iff [of ?h] by simp
  then obtain e where "fst (read_parameters ?h) = Some e" by auto
  with assms(1,2) have "fst (on_init base i w) = Thrown e" by (simp add: on_init_outcome)
  then show ?thesis by (cases e) simp_all
qed

lemma on_init_daemon:
  "daemon (snd (on_init base i w)) =
     (if base \<noteq> SUCCESS then daemon w else snd (pigpio_start (daemon w)))"
  by (simp add: on_init_def Let_def case_prod_beta split: option.splits)

lemma on_init_never_releases:
  "base = SUCCESS \<Longrightarrow> 0 \<le> start_reply (daemon w) \<Longrightarrow>
   start_reply (daemon w) \<in> connections (daemon (snd (on_init base i w)))"
  by (simp add: on_init_daemon pigpio_start_def)

lemma on_init_pi_handle:
  "base = SUCCESS \<Longrightarrow>
   pi_handle (cfg (hw (snd (on_init base i w)))) = start_reply (daemon w)"
  using read_parameters_frame
    [of "(hw w)\<lparr>info := i, cfg := (cfg (hw w))\<lparr>pi_handle := start_reply (daemon w)\<rparr>\<rparr>"]
  by (simp add: on_init_def pigpio_start_def Let_def case_prod_beta split: option.splits)

lemma on_init_counts:
  assumes "base = SUCCESS" "0 \<le> start_reply (daemon w)" "params_parse i"
  shows "stoul (parameter i ''enc_counts_per_rev'') =
           Inr (counts_per_rev (wheel_left (hw (snd (on_init base i w))))) \<and>
         stoul (parameter i ''enc_counts_per_rev'') =
           Inr (counts_per_rev (wheel_right (hw (snd (on_init base i w)))))"
proof -
  let ?h = "(hw w)\<lparr>info := i, cfg := (cfg (hw w))\<lparr>pi_handle := start_reply (daemon w)\<rparr>\<rparr>"
  have none: "fst (read_parameters ?h) = None"
    using assms(3) by (simp add: read_parameters_None_iff)
  from read_parameters_counts [OF none]
  have "stoul (parameter i ''enc_counts_per_rev'') =
          Inr (enc_counts_per_rev (cfg (snd (read_parameters ?h))))"
    by simp
  with none assms(1,2) show ?thesis
    by (cases "read_parameters ?h")
      (simp add: on_init_def pigpio_start_def Let_def wheel_setup_def)
qed

subsection \<open>Evaluating the concrete configurations\<close>

lemmas parse_defs =
  stoi_def stoul_def strto_magnitude_def isspace_def isdigit_def digit_value_def
  INT_MIN_def INT_MAX_def ULONG_MAX_def

lemma wheel_parameters_parse:
  "stoi (parameter \<lparr>hardware_parameters = wheel_parameters c, joints = js\<rparr> ''left_wheel_pin'') = Inr 17"
  "stoi (parameter \<lparr>hardware_parameters = wheel_parameters c, joints = js\<rparr> ''right_wheel_pin'') = Inr 18"
  "parameter \<lparr>hardware_parameters = wheel_parameters c, joints = js\<rparr> ''enc_counts_per_rev'' = c"
  by (simp_all add: parameter_def wheel_parameters_def parse_defs)

lemma stoul_examples:
  "stoul ''0'' = Inr 0" "stoul ''1920'' = Inr 1920"
  by (simp_all add: parse_defs)

lemma stoi_examples:
  "stoi '' -17 rad'' = Inr (- 17)"
  "stoi ''seventeen'' = Inl invalid_argument"
  "stoi [] = Inl invalid_argument"
  "stoi ''2147483648'' = Inl out_of_range"
  by (simp_all add: parse_defs)

lemma stoul_many: "stoul ''many'' = Inl invalid_argument"
  by (simp add: parse_defs)

lemma stoul_minus_one: "stoul ''-1'' = Inr 18446744073709551615"
  by (simp add: parse_defs)

lemma velocity_joint_conforms: "joint_conforms (velocity_joint n)"
  by (simp add: joint_conforms_def velocity_joint_def)

lemma no_command_joint_violates: "\<not> joint_conforms (no_command_joint n)"
  by (simp add: joint_conforms_def no_command_joint_def)

lemma swapped_state_joint_violates: "\<not> joint_conforms (swapped_state_joint n)"
  by (simp add: joint_conforms_def swapped_state_joint_def)

lemma fresh_world_daemon:
  "start_reply (daemon fresh_world) = 0" "connections (daemon fresh_world) = {}"
  by (simp_all add: fresh_world_def idle_daemon_def)

lemma two_wheel_info_parse: "params_parse (two_wheel_info ''1920'')"
  by (simp add: params_parse_def two_wheel_info_def wheel_parameters_parse stoul_examples)

subsection \<open>Initialization and the encoder resolution\<close>

text \<open>
  Claim C1 says that \<^verbatim>\<open>on_init\<close> returns an error for every configuration whose
  \<^verbatim>\<open>enc_counts_per_rev\<close> is 0. It does not: with the daemon reachable, the usual two
  wheel joints and \<^verbatim>\<open>enc_counts_per_rev\<close> set to the string 0, which \<^verbatim>\<open>std::stoul\<close>
  reads as 0, \<^verbatim>\<open>on_init\<close> returns \<^verbatim>\<open>SUCCESS\<close>.
\<close>

theorem on_init_zero_counts_succeeds:
  "parameter (two_wheel_info ''0'') ''enc_counts_per_rev'' = ''0'' \<and>
   stoul ''0'' = Inr 0 \<and>
   fst (on_init SUCCESS (two_wheel_info ''0'') fresh_world) = Returned SUCCESS"
  by (simp add: on_init_outcome read_parameters_fst two_wheel_info_def wheel_parameters_parse
      stoul_examples fresh_world_daemon validate_joint_step velocity_joint_conforms
      del: validate_joints.simps(2))

text \<open>
  Claim C1, amended: \<^verbatim>\<open>on_init\<close> never looks at the value \<^verbatim>\<open>std::stoul\<close> returns.
  Whenever the base class and the daemon connection succeed, both pin numbers parse,
  the resolution parses to 0 and every joint conforms, \<^verbatim>\<open>on_init\<close> returns
  \<^verbatim>\<open>SUCCESS\<close> and leaves both wheels with 0 counts per revolution, so that their angle
  calculation divides by zero.
\<close>

theorem on_init_accepts_zero_counts:
  assumes "base = SUCCESS" and "0 \<le> start_reply (daemon w)"
    and "\<not> isl (stoi (parameter i ''left_wheel_pin''))"
    and "\<not> isl (stoi (parameter i ''right_wheel_pin''))"
    and "stoul (parameter i ''enc_counts_per_rev'') = Inr 0"
    and "\<forall>j\<in>set (joints i). joint_conforms j"
  shows "fst (on_init base i w) = Returned SUCCESS \<and>
         counts_per_rev (wheel_left (hw (snd (on_init base i w)))) = 0 \<and>
         counts_per_rev (wheel_right (hw (snd (on_init base i w)))) = 0 \<and>
         calc_enc_angle (wheel_left (hw (snd (on_init base i w)))) = NonFinite \<and>
         calc_enc_angle (wheel_right (hw (snd (on_init base i w)))) = NonFinite"
proof -
  have parse: "params_parse i"
    using assms(3,4,5) by (simp add: params_parse_def)
  have ok: "fst (on_init base i w) = Returned SUCCESS"
    using assms(1,2,6) parse
    by (simp add: on_init_returns validate_joints_SUCCESS_iff)
  from on_init_counts [OF assms(1,2) parse] assms(5)
  have "counts_per_rev (wheel_left (hw (snd (on_init base i w)))) = 0"
    and "counts_per_rev (wheel_right (hw (snd (on_init base i w)))) = 0"
    by simp_all
  with ok show ?thesis by (simp add: calc_enc_angle_def)
qed

text \<open>
  The amended claim C1 at a configuration with a single joint: its hypotheses hold there.
\<close>

theorem on_init_accepts_zero_counts_witness:
  "fst (on_init SUCCESS
          \<lparr>hardware_parameters = wheel_parameters ''0'', joints = [velocity_joint ''wheel'']\<rparr>
          fresh_world) = Returned SUCCESS \<and>
   counts_per_rev (wheel_left (hw (snd (on_init SUCCESS
          \<lparr>hardware_parameters = wheel_parameters ''0'', joints = [velocity_joint ''wheel'']\<rparr>
          fresh_world)))) = 0 \<and>
   calc_enc_angle (wheel_right (hw (snd (on_init SUCCESS
          \<lparr>hardware_parameters = wheel_parameters ''0'', joints = [velocity_joint ''wheel'']\<rparr>
          fresh_world)))) = NonFinite"
  using on_init_accepts_zero_counts
    [of SUCCESS fresh_world
      "\<lparr>hardware_parameters = wheel_parameters ''0'', joints = [velocity_joint ''wheel'']\<rparr>"]
  by (simp add: wheel_parameters_parse stoul_examples fresh_world_daemon velocity_joint_conforms)

subsection \<open>The daemon connection when initialization fails\<close>

text \<open>
  Claim C2 says that no run of \<^verbatim>\<open>on_init\<close> that returns an error leaves the daemon
  connection open. \<^verbatim>\<open>on_init\<close> never calls \<^verbatim>\<open>pigpio_stop\<close>: when the connection was
  opened and the second joint declares no command interface, it returns \<^verbatim>\<open>ERROR\<close> at
  line 70 with the handle it was given still among the open connections.
\<close>

theorem on_init_joint_error_keeps_connection:
  "fst (on_init SUCCESS bad_joint_info fresh_world) = Returned ERROR \<and>
   connections (daemon fresh_world) = {} \<and>
   pi_handle (cfg (hw (snd (on_init SUCCESS bad_joint_info fresh_world)))) = 0 \<and>
   connections (daemon (snd (on_init SUCCESS bad_joint_info fresh_world))) = {0}"
  by (simp add: on_init_outcome on_init_daemon on_init_pi_handle read_parameters_fst
      bad_joint_info_def wheel_parameters_parse stoul_examples fresh_world_daemon
      validate_joint_step velocity_joint_conforms no_command_joint_violates pigpio_start_def
      del: validate_joints.simps(2))

subsection \<open>Exceptions of \<^verbatim>\<open>on_init\<close>\<close>

text \<open>
  Claim C3 says that \<^verbatim>\<open>on_init\<close> returns an error value for every configuration, also
  one with a malformed or missing parameter, and never lets an exception reach its
  caller. With \<^verbatim>\<open>left_wheel_pin\<close> missing, \<^verbatim>\<open>operator[]\<close> reads the empty string and
  \<^verbatim>\<open>std::stoi\<close> throws \<^verbatim>\<open>std::invalid_argument\<close>, which nothing catches.
\<close>

theorem on_init_missing_pin_throws:
  "hardware_parameters missing_pin_info ''left_wheel_pin'' = None \<and>
   fst (on_init SUCCESS missing_pin_info fresh_world) = Thrown invalid_argument"
  by (simp add: on_init_outcome read_parameters_fst missing_pin_info_def parameter_def
      fresh_world_daemon parse_defs)

text \<open>
  Claim C3, amended: \<^verbatim>\<open>on_init\<close> returns normally, with \<^verbatim>\<open>ERROR\<close> or \<^verbatim>\<open>SUCCESS\<close>, for
  every configuration whose two pin numbers and encoder resolution parse; a failure of
  the base class or of the daemon connection is a returned \<^verbatim>\<open>ERROR\<close> whatever the
  parameters are; and once both have succeeded, a pin number or resolution that does not
  parse makes \<^verbatim>\<open>on_init\<close> leave by \<^verbatim>\<open>std::invalid_argument\<close> or
  \<^verbatim>\<open>std::out_of_range\<close>.
\<close>

theorem on_init_throws_only_on_malformed_parameters:
  "(params_parse i \<longrightarrow>
      fst (on_init base i w) = Returned ERROR \<or> fst (on_init base i w) = Returned SUCCESS) \<and>
   (base \<noteq> SUCCESS \<or> start_reply (daemon w) < 0 \<longrightarrow> fst (on_init base i w) = Returned ERROR) \<and>
   (base = SUCCESS \<and> 0 \<le> start_reply (daemon w) \<and> \<not> params_parse i \<longrightarrow>
      fst (on_init base i w) = Thrown invalid_argument \<or>
      fst (on_init base i w) = Thrown out_of_range)"
proof (intro conjI impI)
  assume parse: "params_parse i"
  show "fst (on_init base i w) = Returned ERROR \<or> fst (on_init base i w) = Returned SUCCESS"
  proof (cases "base = SUCCESS \<and> 0 \<le> start_reply (daemon w)")
    case True
    then have "fst (on_init base i w) = Returned (validate_joints (joints i))"
      using parse by (simp add: on_init_returns)
    with validate_joints_cases [of "joints i"] show ?thesis by auto
  next
    case False
    then have "fst (on_init base i w) = Returned ERROR"
      by (intro on_init_refuses) auto
    then show ?thesis by simp
  qed
next
  assume "base \<noteq> SUCCESS \<or> start_reply (daemon w) < 0"
  then show "fst (on_init base i w) = Returned ERROR" by (rule on_init_refuses)
next
  assume "base = SUCCESS \<and> 0 \<le> start_reply (daemon w) \<and> \<not> params_parse i"
  then show "fst (on_init base i w) = Thrown invalid_argument \<or>
             fst (on_init base i w) = Thrown out_of_range"
    by (simp add: on_init_throws)
qed

text \<open>
  The amended claim C3 at the usual configuration, which parses (\<^verbatim>\<open>on_init\<close> returns,
  and it returns \<^verbatim>\<open>ERROR\<close> when the base class reports a failure), and at the
  configuration without \<^verbatim>\<open>left_wheel_pin\<close>, which does not.
\<close>

theorem on_init_throws_only_on_malformed_parameters_witness:
  "params_parse (two_wheel_info ''1920'') \<and>
   (fst (on_init SUCCESS (two_wheel_info ''1920'') fresh_world) = Returned ERROR \<or>
    fst (on_init SUCCESS (two_wheel_info ''1920'') fresh_world) = Returned SUCCESS) \<and>
   fst (on_init FAILURE (two_wheel_info ''1920'') fresh_world) = Returned ERROR \<and>
   \<not> params_parse missing_pin_info \<and>
   (fst (on_init SUCCESS missing_pin_info fresh_world) = Thrown invalid_argument \<or>
    fst (on_init SUCCESS missing_pin_info fresh_world) = Thrown out_of_range)"
proof -
  have missing: "\<not> params_parse missing_pin_info"
    by (simp add: params_parse_def missing_pin_info_def parameter_def parse_defs)
  show ?thesis
    using on_init_throws_only_on_malformed_parameters
        [of "two_wheel_info ''1920''" SUCCESS fresh_world]
      on_init_throws_only_on_malformed_parameters
        [of "two_wheel_info ''1920''" FAILURE fresh_world]
      on_init_throws_only_on_malformed_parameters [of missing_pin_info SUCCESS fresh_world]
    by (simp add: two_wheel_info_parse missing fresh_world_daemon)
qed

subsection \<open>The narrowing to single precision\<close>

text \<open>
  The exponent found by \<open>binary_exponent\<close> is the right one, and the narrowed value is
  within half a unit in the last place of the double it comes from.
\<close>

lemma bit_length_bounds:
  "0 < n \<Longrightarrow> 2 ^ (bit_length n - 1) \<le> n \<and> n < 2 ^ bit_length n"
proof (induction n rule: bit_length.induct)
  case (1 n)
  show ?case
  proof (cases "n div 2 = 0")
    case True
    with "1.prems" have "n = 1" by presburger
    then show ?thesis by (simp add: bit_length.simps)
  next
    case False
    then have pos: "0 < n div 2" by simp
    from "1.IH" [OF _ pos] "1.prems"
    have IH: "2 ^ (bit_length (n div 2) - 1) \<le> n div 2" "n div 2 < 2 ^ bit_length (n div 2)"
      by simp_all
    have bl: "bit_length n = Suc (bit_length (n div 2))"
      using "1.prems" by (subst bit_length.simps) simp
    have "0 < bit_length (n div 2)"
      using pos by (subst bit_length.simps) simp
    then obtain k where k: "bit_length (n div 2) = Suc k" by (cases "bit_length (n div 2)") auto
    from IH k have "2 * 2 ^ k \<le> 2 * (n div 2)" by simp
    also have "\<dots> \<le> n" by presburger
    finally have lower: "2 ^ (bit_length n - 1) \<le> n" by (simp add: bl k)
    from IH(2) have "Suc (n div 2) \<le> 2 ^ bit_length (n div 2)" by simp
    then have "2 * Suc (n div 2) \<le> 2 * 2 ^ bit_length (n div 2)" by simp
    moreover have "n < 2 * Suc (n div 2)" by presburger
    ultimately have "n < 2 ^ bit_length n" by (simp add: bl)
    with lower show ?thesis by simp
  qed
qed

lemma round_half_even_nearest: "\<bar>real_of_int (round_half_even x) - x\<bar> \<le> 1 / 2"
proof -
  have "real_of_int \<lfloor>x\<rfloor> \<le> x" "x < real_of_int \<lfloor>x\<rfloor> + 1"
    by linarith+
  then show ?thesis
    by (auto simp: round_half_even_def Let_def abs_le_iff)
qed

lemma binary_exponent_bounds:
  assumes "x \<noteq> 0"
  shows "pow2 (binary_exponent x) \<le> \<bar>x\<bar> \<and> \<bar>x\<bar> < pow2 (binary_exponent x + 1)"
proof (cases "1 \<le> \<bar>x\<bar>")
  case True
  define n where "n = nat \<lfloor>\<bar>x\<bar>\<rfloor>"
  have n_pos: "0 < n" using True by (simp add: n_def)
  have "0 \<le> \<lfloor>\<bar>x\<bar>\<rfloor>" by simp
  then have n_real: "real n = real_of_int \<lfloor>\<bar>x\<bar>\<rfloor>" by (simp add: n_def)
  have n_le: "real n \<le> \<bar>x\<bar>" and n_gt: "\<bar>x\<bar> < real n + 1"
    unfolding n_real by linarith+
  from bit_length_bounds [OF n_pos]
  have b: "2 ^ (bit_length n - 1) \<le> n" "n < 2 ^ bit_length n" by simp_all
  have bl_pos: "0 < bit_length n" using n_pos by (subst bit_length.simps) simp
  have e: "binary_exponent x = int (bit_length n) - 1"
    using True by (simp add: binary_exponent_def n_def)
  have p1: "pow2 (binary_exponent x) = 2 ^ (bit_length n - 1)"
    using bl_pos by (simp add: e pow2_def nat_diff_distrib')
  have p2: "pow2 (binary_exponent x + 1) = 2 ^ bit_length n"
    by (simp add: e pow2_def)
  have "(2::real) ^ (bit_length n - 1) \<le> real n"
    using of_nat_mono [OF b(1), where 'a = real] by simp
  then have lower: "pow2 (binary_exponent x) \<le> \<bar>x\<bar>" using n_le unfolding p1 by linarith
  have "Suc n \<le> 2 ^ bit_length n" using b(2) by simp
  then have "real n + 1 \<le> (2::real) ^ bit_length n"
    using of_nat_mono [of "Suc n" "2 ^ bit_length n", where 'a = real] by simp
  then have "\<bar>x\<bar> < pow2 (binary_exponent x + 1)" using n_gt unfolding p2 by linarith
  with lower show ?thesis by simp
next
  case False
  define y where "y = 1 / \<bar>x\<bar>"
  have y_gt: "1 < y" using False assms by (simp add: y_def)
  define m where "m = nat (\<lceil>y\<rceil> - 1)"
  have c2: "2 \<le> \<lceil>y\<rceil>" using y_gt by linarith
  then have m_pos: "0 < m" by (simp add: m_def)
  have m_real: "real m = real_of_int \<lceil>y\<rceil> - 1" using c2 by (simp add: m_def)
  have m_lt: "real m < y" and m_ge: "y \<le> real m + 1"
    unfolding m_real by linarith+
  from bit_length_bounds [OF m_pos]
  have b: "2 ^ (bit_length m - 1) \<le> m" "m < 2 ^ bit_length m" by simp_all
  have bl_pos: "0 < bit_length m" using m_pos by (subst bit_length.simps) simp
  have e: "binary_exponent x = - int (bit_length m)"
    using False by (simp add: binary_exponent_def m_def y_def)
  have p1: "pow2 (binary_exponent x) = 1 / 2 ^ bit_length m"
    using bl_pos by (simp add: e pow2_def)
  have p2: "pow2 (binary_exponent x + 1) = 1 / 2 ^ (bit_length m - 1)"
  proof (cases "bit_length m = 1")
    case True
    then show ?thesis by (simp add: e pow2_def)
  next
    case False
    with bl_pos have "1 < bit_length m" by simp
    then show ?thesis by (simp add: e pow2_def nat_diff_distrib')
  qed
  have x_eq: "\<bar>x\<bar> = 1 / y" using assms by (simp add: y_def)
  have "Suc m \<le> 2 ^ bit_length m" using b(2) by simp
  then have "real m + 1 \<le> (2::real) ^ bit_length m"
    using of_nat_mono [of "Suc m" "2 ^ bit_length m", where 'a = real] by simp
  then have "y \<le> 2 ^ bit_length m" using m_ge by linarith
  then have lower: "pow2 (binary_exponent x) \<le> \<bar>x\<bar>"
    using y_gt by (simp add: p1 x_eq frac_le)
  have "(2::real) ^ (bit_length m - 1) \<le> real m"
    using of_nat_mono [OF b(1), where 'a = real] by simp
  then have "2 ^ (bit_length m - 1) < y" using m_lt by linarith
  then have "\<bar>x\<bar> < pow2 (binary_exponent x + 1)"
    by (simp add: p2 x_eq frac_less2)
  with lower show ?thesis by simp
qed

lemma pow2_pos: "0 < pow2 e"
  by (simp add: pow2_def)

lemma float_of_double_nearest:
  assumes "float_of_double (Finite x) = Finite r"
  shows "\<bar>r - x\<bar> \<le> pow2 (max (binary_exponent x) (- 126) - 23) / 2"
proof (cases "x = 0")
  case True
  with assms have "r = 0" by (simp add: float_of_double_def)
  with True show ?thesis using pow2_pos [of "max (binary_exponent 0) (- 126) - 23"] by simp
next
  case False
  define q where "q = pow2 (max (binary_exponent x) (- 126) - 23)"
  have q_pos: "0 < q" by (simp add: q_def pow2_pos)
  from assms False have r: "r = real_of_int (round_half_even (x / q)) * q"
    by (simp add: float_of_double_def Let_def q_def split: if_splits)
  have "r - x = (real_of_int (round_half_even (x / q)) - x / q) * q"
    using q_pos by (simp add: r field_simps)
  then have "\<bar>r - x\<bar> = \<bar>real_of_int (round_half_even (x / q)) - x / q\<bar> * q"
    using q_pos by (simp add: abs_mult)
  also have "\<dots> \<le> 1 / 2 * q"
    using round_half_even_nearest [of "x / q"] q_pos by (intro mult_right_mono) simp_all
  finally show ?thesis by (simp add: q_def)
qed

subsection \<open>Rational bounds on \<open>\<pi>\<close>\<close>

text \<open>
  Machin's formula and the alternating series of the arctangent give \<open>\<pi>\<close> to nine
  digits, enough to find the single-precision neighbour of a multiple of \<open>\<pi>\<close>.
\<close>

lemma arctan_partial_sums:
  fixes x :: real
  assumes "0 < x" "x \<le> 1"
  shows "(\<Sum>i<2 * n. (- 1) ^ i * (1 / real (i * 2 + 1) * x ^ (i * 2 + 1))) \<le> arctan x"
    and "arctan x \<le> (\<Sum>i<2 * n + 1. (- 1) ^ i * (1 / real (i * 2 + 1) * x ^ (i * 2 + 1)))"
proof -
  have ax: "\<bar>x\<bar> \<le> 1" using assms by simp
  have pos: "0 < 1 / real (0 * 2 + 1) * x ^ (0 * 2 + 1)" using assms by simp
  from summable_Leibniz(2) [OF zeroseq_arctan_series [OF ax] monoseq_arctan_series [OF ax]] pos
  have "(\<Sum>i. (- 1) ^ i * (1 / real (i * 2 + 1) * x ^ (i * 2 + 1)))
      \<in> {(\<Sum>i<2 * n. (- 1) ^ i * (1 / real (i * 2 + 1) * x ^ (i * 2 + 1))) ..
         (\<Sum>i<2 * n + 1. (- 1) ^ i * (1 / real (i * 2 + 1) * x ^ (i * 2 + 1)))}"
    by blast
  then show "(\<Sum>i<2 * n. (- 1) ^ i * (1 / real (i * 2 + 1) * x ^ (i * 2 + 1))) \<le> arctan x"
    and "arctan x \<le> (\<Sum>i<2 * n + 1. (- 1) ^ i * (1 / real (i * 2 + 1) * x ^ (i * 2 + 1)))"
    by (simp_all add: arctan_series [OF ax])
qed

lemma arctan_fifth_lower: "(6679449362 / 33837890625 :: real) \<le> arctan (1 / 5)"
proof -
  have "(\<Sum>i<2 * 3. (- 1) ^ i * (1 / real (i * 2 + 1) * (1 / 5 :: real) ^ (i * 2 + 1))) = 6679449362 / 33837890625"
    by (simp add: lessThan_nat_numeral lessThan_Suc power_divide)
  with arctan_partial_sums(1) [of "1 / 5" 3] show ?thesis by simp
qed

lemma arctan_fifth_upper: "arctan (1 / 5) \<le> (2170821043343 / 10997314453125 :: real)"
proof -
  have "(\<Sum>i<2 * 3 + 1. (- 1) ^ i * (1 / real (i * 2 + 1) * (1 / 5 :: real) ^ (i * 2 + 1))) = 2170821043343 / 10997314453125"
    by (simp add: lessThan_nat_numeral lessThan_Suc power_divide)
  with arctan_partial_sums(2) [of "1 / 5" 3] show ?thesis by simp
qed

lemma arctan_239th_lower: "(171362 / 40955757 :: real) \<le> arctan (1 / 239)"
proof -
  have "(\<Sum>i<2 * 1. (- 1) ^ i * (1 / real (i * 2 + 1) * (1 / 239 :: real) ^ (i * 2 + 1))) = 171362 / 40955757"
    by (simp add: lessThan_nat_numeral lessThan_Suc power_divide)
  with arctan_partial_sums(1) [of "1 / 239" 1] show ?thesis by simp
qed

lemma arctan_239th_upper: "arctan (1 / 239) \<le> (48941844013 / 11697168977985 :: real)"
proof -
  have "(\<Sum>i<2 * 1 + 1. (- 1) ^ i * (1 / real (i * 2 + 1) * (1 / 239 :: real) ^ (i * 2 + 1))) = 48941844013 / 11697168977985"
    by (simp add: lessThan_nat_numeral lessThan_Suc power_divide)
  with arctan_partial_sums(2) [of "1 / 239" 1] show ?thesis by simp
qed

lemma pi_bounds: "(3141592652 / 1000000000 :: real) < pi" "pi < (3141592654 / 1000000000 :: real)"
proof -
  have "pi = 16 * arctan (1 / 5) - 4 * arctan (1 / 239)"
    using machin by simp
  with arctan_fifth_lower arctan_fifth_upper arctan_239th_lower arctan_239th_upper
  show "(3141592652 / 1000000000 :: real) < pi" "pi < (3141592654 / 1000000000 :: real)"
    by linarith+
qed

lemma binary_exponent_20000_pi: "binary_exponent (20000 * pi) = 15"
proof -
  have "\<lfloor>\<bar>20000 * pi\<bar>\<rfloor> = 62831"
    using pi_bounds by (simp add: floor_eq_iff)
  moreover have "1 \<le> \<bar>20000 * pi\<bar>"
    using pi_bounds by simp
  ultimately show ?thesis
    by (simp add: binary_exponent_def bit_length.simps)
qed

lemma round_half_even_5120000_pi: "round_half_even (5120000 * pi) = 16084954"
proof -
  have "\<lfloor>5120000 * pi\<rfloor> = 16084954"
    using pi_bounds by (simp add: floor_eq_iff)
  moreover have "5120000 * pi - 16084954 < 1 / 2"
    using pi_bounds by simp
  ultimately show ?thesis
    by (simp add: round_half_even_def Let_def)
qed

lemma float_of_double_20000_pi:
  "float_of_double (Finite (20000 * pi)) = Finite 62831.8515625"
proof -
  have "20000 * pi / pow2 (max (binary_exponent (20000 * pi)) (- 126) - 23) = 5120000 * pi"
    by (simp add: binary_exponent_20000_pi pow2_def)
  then show ?thesis
    by (simp add: float_of_double_def Let_def round_half_even_5120000_pi)
      (simp add: binary_exponent_20000_pi pow2_def)
qed

subsection \<open>The read cycle\<close>

lemma read_wheel_pos: "pos (read_wheel dt w) = calc_enc_angle w"
  by (simp add: read_wheel_def Let_def)

lemma read_wheel_vel:
  "vel (read_wheel dt w) = ddiv (dsub (calc_enc_angle w) (float_of_double (pos w))) dt"
  by (simp add: read_wheel_def Let_def)

lemma read_wheels:
  "wheel_left (hw (snd (read t p w))) = read_wheel (seconds p) (wheel_left (hw w))"
  "wheel_right (hw (snd (read t p w))) = read_wheel (seconds p) (wheel_right (hw w))"
  by (simp_all add: read_def Let_def)

text \<open>
  Zero is a single-precision number; \<open>2^24 + 1\<close> is the first whole number that is not,
  and narrows to \<open>2^24\<close>.
\<close>

lemma float_of_double_exact:
  "float_of_double (Finite 0) = Finite 0"
  "float_of_double (Finite 16777217) = Finite 16777216"
  by (simp_all add: float_of_double_def binary_exponent_def bit_length.simps pow2_def
      round_half_even_def Let_def)

text \<open>
  Where the previous position is a single-precision number, the velocity is the
  backward difference of the positions. The example of the specification is such a case:
  from position 0 to position \<open>\<pi>\<close> in half a second the velocity is \<open>2\<pi>\<close>.
\<close>

lemma read_velocity_when_previous_is_single:
  assumes "pos w = Finite p0" "float_of_double (Finite p0) = Finite p0"
    and "calc_enc_angle w = Finite p1" "dt \<noteq> 0"
  shows "vel (read_wheel dt w) = Finite ((p1 - p0) / dt)"
  using assms by (simp add: read_wheel_vel dsub_def ddiv_def)

lemma read_velocity_spec_example:
  "vel (wheel_left (hw (snd (read 0 500000000
      (running_world (wheel_at 1 2 (Finite 0)) (wheel_at 0 1 (Finite 0))))))) = Finite (2 * pi)"
  by (simp add: read_wheels read_wheel_vel running_world_def wheel_at_def calc_enc_angle_def
      float_of_double_exact dsub_def ddiv_def seconds_def)

text \<open>
  In general the velocity stored is the backward difference plus the error of the
  narrowing divided by the elapsed time.
\<close>

lemma read_wheel_velocity_deviation:
  assumes "pos w = Finite p0" and "float_of_double (Finite p0) = Finite q"
    and "calc_enc_angle w = Finite p1" and "dt \<noteq> 0"
  shows "vel (read_wheel dt w) = Finite ((p1 - p0) / dt + (p0 - q) / dt)"
  using assms by (simp add: read_wheel_vel dsub_def ddiv_def diff_divide_distrib)

text \<open>
  Claim C4 says that after every read cycle a wheel's velocity is \<open>(p1 - p0) / dt\<close>,
  for the previous position \<open>p0\<close>, the new position \<open>p1\<close> and the elapsed time
  \<open>dt > 0\<close>. The source keeps \<open>p0\<close> in a \<^verbatim>\<open>float\<close>. Take a left wheel that stands
  still at ten thousand revolutions and two read cycles of 10 ms. Both cycles compute
  the position \<open>20000\<pi>\<close>, so the backward difference of the second cycle is 0; but the
  previous position is narrowed to 62831.8515625, and the velocity stored is
  \<open>(20000\<pi> - 62831.8515625) / 0.01\<close>, more than a tenth of a radian per second.
\<close>

theorem read_velocity_of_standing_wheel:
  "seconds 10000000 = 1 / 100 \<and>
   pos (wheel_left (hw (snd (read 0 10000000 standing_world)))) = Finite (20000 * pi) \<and>
   pos (wheel_left (hw (snd (read 10000000 10000000 (snd (read 0 10000000 standing_world))))))
     = Finite (20000 * pi) \<and>
   vel (wheel_left (hw (snd (read 10000000 10000000 (snd (read 0 10000000 standing_world))))))
     = Finite ((20000 * pi - 62831.8515625) / (1 / 100)) \<and>
   vel (wheel_left (hw (snd (read 10000000 10000000 (snd (read 0 10000000 standing_world))))))
     \<noteq> Finite ((20000 * pi - 20000 * pi) / (1 / 100)) \<and>
   1 / 10 < (20000 * pi - 62831.8515625) / (1 / 100)"
proof -
  have first: "wheel_left (hw (snd (read 0 10000000 standing_world))) =
      (wheel_at 10000000 1000 (Finite 0))\<lparr>pos := Finite (20000 * pi), vel := Finite (20000 * pi * 100)\<rparr>"
    by (simp add: read_wheels read_wheel_def Let_def standing_world_def running_world_def
        wheel_at_def calc_enc_angle_def float_of_double_exact dsub_def ddiv_def seconds_def)
  have far: "1 / 10 < (20000 * pi - 62831.8515625) / (1 / 100)"
    using pi_bounds by simp
  have second: "vel (wheel_left (hw (snd (read 10000000 10000000 (snd (read 0 10000000 standing_world))))))
     = Finite ((20000 * pi - 62831.8515625) / (1 / 100))"
    by (simp add: read_wheels(1) [of 10000000] read_wheel_vel first wheel_at_def
        calc_enc_angle_def float_of_double_20000_pi dsub_def ddiv_def seconds_def)
  have third: "pos (wheel_left (hw (snd (read 10000000 10000000 (snd (read 0 10000000 standing_world))))))
     = Finite (20000 * pi)"
    by (simp add: read_wheels(1) [of 10000000] read_wheel_pos first wheel_at_def calc_enc_angle_def)
  show ?thesis
    using far by (simp add: second third) (simp add: first seconds_def)
qed

text \<open>
  Claim C5: after a read cycle each wheel's position is its tick count \<open>T\<close> divided by
  its counts per revolution \<open>N > 0\<close>, times \<open>2\<pi>\<close>, whatever the sign of \<open>T\<close> and
  whatever the positions and velocities were before the cycle (the state \<open>w\<close> before the
  cycle is arbitrary).
\<close>

theorem read_position_from_ticks:
  assumes "0 < counts_per_rev (wheel_left (hw w))"
    and "0 < counts_per_rev (wheel_right (hw w))"
  shows "fst (read t p w) = OK \<and>
         pos (wheel_left (hw (snd (read t p w)))) =
           Finite (real_of_int (enc (wheel_left (hw w))) /
                   real (counts_per_rev (wheel_left (hw w))) * 2 * pi) \<and>
         pos (wheel_right (hw (snd (read t p w)))) =
           Finite (real_of_int (enc (wheel_right (hw w))) /
                   real (counts_per_rev (wheel_right (hw w))) * 2 * pi)"
  using assms by (simp add: read_wheels read_wheel_pos calc_enc_angle_def) (simp add: read_def Let_def)

text \<open>
  Claim C5 at a wheel with \<open>-3\<close> ticks of 4 per revolution, from two different earlier
  positions, and at a wheel with 5 ticks of 2 per revolution.
\<close>

theorem read_position_from_ticks_witness:
  "pos (wheel_left (hw (snd (read 0 20000000
      (running_world (wheel_at (- 3) 4 (Finite 7)) (wheel_at 5 2 (Finite 0))))))) =
     Finite (- (3 / 4) * 2 * pi) \<and>
   pos (wheel_left (hw (snd (read 0 20000000
      (running_world (wheel_at (- 3) 4 (Finite (- 100))) (wheel_at 5 2 (Finite 0))))))) =
     Finite (- (3 / 4) * 2 * pi) \<and>
   pos (wheel_right (hw (snd (read 0 20000000
      (running_world (wheel_at (- 3) 4 (Finite 7)) (wheel_at 5 2 (Finite 0))))))) =
     Finite (5 / 2 * 2 * pi)"
  using read_position_from_ticks
      [of "running_world (wheel_at (- 3) 4 (Finite 7)) (wheel_at 5 2 (Finite 0))" 0 20000000]
    read_position_from_ticks
      [of "running_world (wheel_at (- 3) 4 (Finite (- 100))) (wheel_at 5 2 (Finite 0))" 0 20000000]
  by (simp add: running_world_def wheel_at_def)

subsection \<open>Configuration and shutdown\<close>

text \<open>
  Claim C6: \<^verbatim>\<open>on_configure\<close> returns \<^verbatim>\<open>ERROR\<close> exactly when \<^verbatim>\<open>set_mode\<close> fails for the
  left or for the right wheel's pin, and after every such return the handle of the
  configuration is no longer an open connection of the daemon; the component's members
  are as before.
\<close>

theorem on_configure_failure_releases_connection:
  "(fst (on_configure s w) = ERROR) =
     (set_mode (pi_handle (cfg (hw w))) (left_wheel_pin (cfg (hw w))) (daemon w) \<noteq> 0 \<or>
      set_mode (pi_handle (cfg (hw w))) (right_wheel_pin (cfg (hw w))) (daemon w) \<noteq> 0) \<and>
   (fst (on_configure s w) = ERROR \<longrightarrow>
      pi_handle (cfg (hw w)) \<notin> connections (daemon (snd (on_configure s w))) \<and>
      hw (snd (on_configure s w)) = hw w)"
  by (simp add: on_configure_def pigpio_stop_def)

text \<open>
  Claim C6 at a daemon that refuses pin 18 (the right wheel's) with \<^verbatim>\<open>PI_BAD_GPIO\<close>: the
  connection was open before the call and is released by it.
\<close>

theorem on_configure_failure_releases_connection_witness:
  "pi_handle (cfg (hw refusing_world)) \<in> connections (daemon refusing_world) \<and>
   fst (on_configure Unconfigured refusing_world) = ERROR \<and>
   pi_handle (cfg (hw refusing_world)) \<notin>
     connections (daemon (snd (on_configure Unconfigured refusing_world)))"
  using on_configure_failure_releases_connection [of Unconfigured refusing_world]
  by (simp add: refusing_world_def set_mode_def)

text \<open>
  Claim C7: from any lifecycle state and any state of the component and the daemon,
  \<^verbatim>\<open>on_shutdown\<close> returns \<^verbatim>\<open>SUCCESS\<close> and leaves the configuration's handle closed, and a
  second call returns \<^verbatim>\<open>SUCCESS\<close> again and changes nothing more.
\<close>

theorem on_shutdown_total_and_idempotent:
  "fst (on_shutdown s w) = SUCCESS \<and>
   pi_handle (cfg (hw w)) \<notin> connections (daemon (snd (on_shutdown s w))) \<and>
   on_shutdown s' (snd (on_shutdown s w)) = (SUCCESS, snd (on_shutdown s w))"
  by (simp add: on_shutdown_def pigpio_stop_def)

text \<open>Before any connection was made, \<^verbatim>\<open>on_shutdown\<close> changes nothing at all.\<close>

lemma on_shutdown_never_connected:
  "on_shutdown Unconfigured fresh_world = (SUCCESS, fresh_world)"
  by (simp add: on_shutdown_def pigpio_stop_def fresh_world_def idle_daemon_def)

subsection \<open>The write cycle\<close>

text \<open>
  Claim C8: for every time, period and state (so for every pair of command values),
  \<^verbatim>\<open>write\<close> returns \<^verbatim>\<open>OK\<close> and leaves the whole state as it was, the exported
  positions, velocities and commands among it.
\<close>

theorem hw_write_changes_nothing:
  "fst (hw_write t p w) = OK \<and> snd (hw_write t p w) = w \<and>
   exported_state (snd (hw_write t p w)) = exported_state w \<and>
   exported_commands (snd (hw_write t p w)) = exported_commands w"
  by (simp add: hw_write_def)

subsection \<open>Joint validation in \<^verbatim>\<open>on_init\<close>\<close>

text \<open>
  Claim C9 says that \<^verbatim>\<open>on_init\<close> returns an error whenever some joint fails to expose
  exactly one command interface named velocity and exactly two state interfaces named
  position and velocity, in that order. The parameters are parsed (lines 54 to 56)
  before the joints are looked at (line 61): with an encoder resolution that is not a
  number and a second joint without command interface, \<^verbatim>\<open>std::stoul\<close> throws
  \<^verbatim>\<open>std::invalid_argument\<close> and \<^verbatim>\<open>on_init\<close> returns nothing.
\<close>

theorem on_init_bad_joint_unparsed_counts_throws:
  "no_command_joint ''right_wheel_joint'' \<in> set (joints many_counts_bad_joint_info) \<and>
   \<not> joint_conforms (no_command_joint ''right_wheel_joint'') \<and>
   parameter many_counts_bad_joint_info ''enc_counts_per_rev'' = ''many'' \<and>
   fst (on_init SUCCESS many_counts_bad_joint_info fresh_world) = Thrown invalid_argument \<and>
   fst (on_init SUCCESS many_counts_bad_joint_info fresh_world) \<noteq> Returned ERROR"
  by (simp add: on_init_outcome read_parameters_fst many_counts_bad_joint_info_def
      wheel_parameters_parse stoul_many fresh_world_daemon no_command_joint_violates)

text \<open>
  Claim C9, amended: if any joint of the configuration fails to expose exactly one
  command interface named velocity and exactly two state interfaces named position and
  velocity, in that order, initialization fails. \<^verbatim>\<open>on_init\<close> never returns \<^verbatim>\<open>SUCCESS\<close>;
  it returns \<^verbatim>\<open>ERROR\<close> whenever the two pin numbers and the encoder resolution parse, and
  also whenever the base class or the daemon connection fails; and when both of these
  succeeded and a pin number or the resolution does not parse, it leaves by
  \<^verbatim>\<open>std::invalid_argument\<close> or \<^verbatim>\<open>std::out_of_range\<close> before it looks at the joints.
\<close>

theorem on_init_rejects_nonconforming_joint:
  assumes "j \<in> set (joints i)" and "\<not> joint_conforms j"
  shows "fst (on_init base i w) \<noteq> Returned SUCCESS \<and>
         (params_parse i \<longrightarrow> fst (on_init base i w) = Returned ERROR) \<and>
         (base \<noteq> SUCCESS \<or> start_reply (daemon w) < 0 \<longrightarrow>
            fst (on_init base i w) = Returned ERROR) \<and>
         (base = SUCCESS \<and> 0 \<le> start_reply (daemon w) \<and> \<not> params_parse i \<longrightarrow>
            fst (on_init base i w) = Thrown invalid_argument \<or>
            fst (on_init base i w) = Thrown out_of_range)"
proof -
  have bad: "validate_joints (joints i) = ERROR"
    using assms validate_joints_SUCCESS_iff [of "joints i"] validate_joints_cases [of "joints i"]
    by auto
  show ?thesis
  proof (cases "base = SUCCESS \<and> 0 \<le> start_reply (daemon w)")
    case False
    then have "fst (on_init base i w) = Returned ERROR"
      by (intro on_init_refuses) auto
    with False show ?thesis by auto
  next
    case True
    show ?thesis
    proof (cases "params_parse i")
      case True
      with \<open>base = SUCCESS \<and> 0 \<le> start_reply (daemon w)\<close> bad show ?thesis
        by (simp add: on_init_returns)
    next
      case False
      with \<open>base = SUCCESS \<and> 0 \<le> start_reply (daemon w)\<close> on_init_throws [of base w i]
      show ?thesis by auto
    qed
  qed
qed

text \<open>
  The amended claim C9 at a configuration whose first joint declares its state
  interfaces in the wrong order: with parameters that parse \<^verbatim>\<open>on_init\<close> returns
  \<^verbatim>\<open>ERROR\<close>, as it does when the daemon cannot be reached, and with a right wheel pin
  that is not a number it throws.
\<close>

theorem on_init_rejects_nonconforming_joint_witness:
  "swapped_state_joint ''left_wheel_joint'' \<in> set (joints
      \<lparr>hardware_parameters = wheel_parameters ''1920'',
       joints = [swapped_state_joint ''left_wheel_joint'', velocity_joint ''right_wheel_joint'']\<rparr>) \<and>
   \<not> joint_conforms (swapped_state_joint ''left_wheel_joint'') \<and>
   fst (on_init SUCCESS
      \<lparr>hardware_parameters = wheel_parameters ''1920'',
       joints = [swapped_state_joint ''left_wheel_joint'', velocity_joint ''right_wheel_joint'']\<rparr>
      fresh_world) = Returned ERROR \<and>
   fst (on_init SUCCESS
      \<lparr>hardware_parameters = wheel_parameters ''1920'',
       joints = [swapped_state_joint ''left_wheel_joint'', velocity_joint ''right_wheel_joint'']\<rparr>
      (fresh_world\<lparr>daemon := idle_daemon\<lparr>start_reply := - 2003\<rparr>\<rparr>)) = Returned ERROR \<and>
   \<not> params_parse
      \<lparr>hardware_parameters = (wheel_parameters ''1920'')(''right_wheel_pin'' \<mapsto> ''GPIO18''),
       joints = [swapped_state_joint ''left_wheel_joint'']\<rparr> \<and>
   (fst (on_init SUCCESS
      \<lparr>hardware_parameters = (wheel_parameters ''1920'')(''right_wheel_pin'' \<mapsto> ''GPIO18''),
       joints = [swapped_state_joint ''left_wheel_joint'']\<rparr>
      fresh_world) = Thrown invalid_argument \<or>
    fst (on_init SUCCESS
      \<lparr>hardware_parameters = (wheel_parameters ''1920'')(''right_wheel_pin'' \<mapsto> ''GPIO18''),
       joints = [swapped_state_joint ''left_wheel_joint'']\<rparr>
      fresh_world) = Thrown out_of_range)"
proof -
  let ?parsed = "\<lparr>hardware_parameters = wheel_parameters ''1920'',
      joints = [swapped_state_joint ''left_wheel_joint'', velocity_joint ''right_wheel_joint'']\<rparr>"
  let ?unparsed = "\<lparr>hardware_parameters =
        (wheel_parameters ''1920'')(''right_wheel_pin'' \<mapsto> ''GPIO18''),
      joints = [swapped_state_joint ''left_wheel_joint'']\<rparr>"
  have parsed: "params_parse ?parsed"
    by (simp add: params_parse_def wheel_parameters_parse stoul_examples)
  have unparsed: "\<not> params_parse ?unparsed"
    by (simp add: params_parse_def parameter_def wheel_parameters_def parse_defs)
  have one: "fst (on_init SUCCESS ?parsed fresh_world) = Returned ERROR"
    using on_init_rejects_nonconforming_joint
      [of "swapped_state_joint ''left_wheel_joint''" ?parsed SUCCESS fresh_world]
    by (simp add: swapped_state_joint_violates parsed)
  have two: "fst (on_init SUCCESS ?parsed
      (fresh_world\<lparr>daemon := idle_daemon\<lparr>start_reply := - 2003\<rparr>\<rparr>)) = Returned ERROR"
    using on_init_rejects_nonconforming_joint
      [of "swapped_state_joint ''left_wheel_joint''" ?parsed SUCCESS
        "fresh_world\<lparr>daemon := idle_daemon\<lparr>start_reply := - 2003\<rparr>\<rparr>"]
    by (simp add: swapped_state_joint_violates)
  have three: "fst (on_init SUCCESS ?unparsed fresh_world) = Thrown invalid_argument \<or>
      fst (on_init SUCCESS ?unparsed fresh_world) = Thrown out_of_range"
    using on_init_rejects_nonconforming_joint
      [of "swapped_state_joint ''left_wheel_joint''" ?unparsed SUCCESS fresh_world]
    by (simp add: swapped_state_joint_violates unparsed fresh_world_daemon)
  show ?thesis
    using one two three unparsed by (simp add: swapped_state_joint_violates)
qed

text \<open>
  Claim C10: \<^verbatim>\<open>on_init\<close> does not count the joints. Whenever the base class and the
  daemon connection succeed and the parameters parse, it returns \<^verbatim>\<open>SUCCESS\<close> for any
  list of joints that each conform, whatever its length.
\<close>

theorem on_init_accepts_any_joint_count:
  assumes "base = SUCCESS" and "0 \<le> start_reply (daemon w)" and "params_parse i"
    and "\<forall>j\<in>set (joints i). joint_conforms j"
  shows "fst (on_init base i w) = Returned SUCCESS"
  using assms by (simp add: on_init_returns validate_joints_SUCCESS_iff)

text \<open>Claim C10 at a configuration with no joint and at one with three joints.\<close>

theorem on_init_accepts_any_joint_count_witness:
  "length (joints \<lparr>hardware_parameters = wheel_parameters ''1920'', joints = []\<rparr>) = 0 \<and>
   fst (on_init SUCCESS \<lparr>hardware_parameters = wheel_parameters ''1920'', joints = []\<rparr>
      fresh_world) = Returned SUCCESS \<and>
   fst (on_init SUCCESS
      \<lparr>hardware_parameters = wheel_parameters ''1920'',
       joints = [velocity_joint ''a'', velocity_joint ''b'', velocity_joint ''c'']\<rparr>
      fresh_world) = Returned SUCCESS"
  using on_init_accepts_any_joint_count
      [of SUCCESS fresh_world "\<lparr>hardware_parameters = wheel_parameters ''1920'', joints = []\<rparr>"]
    on_init_accepts_any_joint_count
      [of SUCCESS fresh_world
        "\<lparr>hardware_parameters = wheel_parameters ''1920'',
          joints = [velocity_joint ''a'', velocity_joint ''b'', velocity_joint ''c'']\<rparr>"]
  by (simp add: params_parse_def wheel_parameters_parse stoul_examples fresh_world_daemon
      velocity_joint_conforms)

end
